theory Spec2Isabelle
  imports Main "HOL-Library.AList"
begin

section \<open>Python values, exceptions and string helpers\<close>

text \<open>
  The daemon \<^verbatim>\<open>jedi_daemon.py\<close> is modelled function by function. A Python exception is a
  value of \<open>exn\<close>; code that may raise returns \<open>exn + 'a\<close> with \<open>Inl\<close> for the raised
  exception. \<open>SystemExit\<close> is what \<^verbatim>\<open>sys.exit()\<close> raises; it is the one exception of the
  model that is not a subclass of \<^verbatim>\<open>Exception\<close>. The semantics is that of Python 3, run
  without \<^verbatim>\<open>-O\<close> (an \<^verbatim>\<open>assert\<close> is checked); interrupts that arrive from outside the
  program (\<^verbatim>\<open>KeyboardInterrupt\<close>) are not part of the model.
\<close>

datatype exn =
    TypeError | ValueError | KeyError | AttributeError | AssertionError
  | IndexError | NotFoundError | IOError | OtherException string | SystemExit

definition is_Exception :: "exn \<Rightarrow> bool" where
  "is_Exception e = (e \<noteq> SystemExit)"

text \<open>
  A Python \<^verbatim>\<open>str\<close> is a \<open>string\<close>: a list of characters, each standing for one code point
  below 256. \<^verbatim>\<open>str.strip()\<close> removes the characters for which \<^verbatim>\<open>str.isspace()\<close> holds;
  below 256 these are the code points 9 to 13, 28 to 32, 133 and 160.
\<close>

definition py_isspace :: "char \<Rightarrow> bool" where
  "py_isspace c = (of_char c \<in> set [9, 10, 11, 12, 13, 28, 29, 30, 31, 32, 133, 160 :: nat])"

definition strip :: "string \<Rightarrow> string" where
  "strip s = rev (dropWhile py_isspace (rev (dropWhile py_isspace s)))"

text \<open>\<^verbatim>\<open>s.split(sep)\<close> for a one-character separator: never an empty list.\<close>

fun str_split :: "char \<Rightarrow> string \<Rightarrow> string list" where
  "str_split sep [] = [[]]"
| "str_split sep (c # cs) =
     (if c = sep then [] # str_split sep cs
      else (c # hd (str_split sep cs)) # tl (str_split sep cs))"

text \<open>\<^verbatim>\<open>sep.join(xs)\<close>.\<close>

fun str_join :: "string \<Rightarrow> string list \<Rightarrow> string" where
  "str_join sep [] = []"
| "str_join sep [x] = x"
| "str_join sep (x # y # ys) = x @ sep @ str_join sep (y # ys)"

text \<open>\<^verbatim>\<open>s.endswith('\n')\<close>.\<close>

definition endswith_newline :: "string \<Rightarrow> bool" where
  "endswith_newline s = (s \<noteq> [] \<and> last s = CHR 0x0A)"

text \<open>\<^verbatim>\<open>'%d' % n\<close> for a natural number: its decimal digits.\<close>

fun str_of_nat :: "nat \<Rightarrow> string" where
  "str_of_nat n =
     (if n < 10 then [char_of (48 + n)]
      else str_of_nat (n div 10) @ [char_of (48 + n mod 10)])"

declare str_of_nat.simps [simp del]

section \<open>The analysis engine at its boundary\<close>

text \<open>
  The engine (\<^verbatim>\<open>jedi\<close>) is outside the repository. A session (\<^verbatim>\<open>jedi.Script\<close>) is the record
  of what its four queries answer; each query may raise. A parameter of a call signature is
  the text that \<^verbatim>\<open>param.get_code()\<close> returns. For \<^verbatim>\<open>call_signatures()\<close>, \<open>None\<close> stands for
  a falsy answer (no call signature is active) and \<open>Some cd\<close> for a truthy object with a
  \<^verbatim>\<open>params\<close> attribute.
\<close>

record callDef =
  params :: "string list"

record completion =
  c_name :: string
  c_type :: string

record definition_site =
  module_path :: string
  d_line :: int
  d_column :: int
  in_builtin_module :: bool

record script =
  call_signatures :: "exn + callDef option"
  completions :: "exn + completion list"
  goto_assignments :: "exn + definition_site list"
  usages :: "exn + definition_site list"

section \<open>Completion formatter and parameter extractor\<close>

definition format_completion :: "completion \<Rightarrow> string \<times> string" where
  "format_completion complete = (c_name complete @ [CHR 0x09] @ c_type complete, c_name complete)"

text \<open>
  \<^verbatim>\<open>get_function_parameters\<close>: the loop over \<^verbatim>\<open>callDef.params\<close> skips a parameter whose
  stripped code contains \<^verbatim>\<open>*\<close> or equals \<^verbatim>\<open>self\<close>, and appends for every other one the list
  of the stripped pieces of \<^verbatim>\<open>cleaned_param.split('=')\<close>.
\<close>

fun extract_params :: "string list \<Rightarrow> string list list" where
  "extract_params [] = []"
| "extract_params (param # rest) =
     (let cleaned_param = strip param in
      if CHR ''*'' \<in> set cleaned_param \<or> cleaned_param = ''self''
      then extract_params rest
      else map strip (str_split CHR ''='' cleaned_param) # extract_params rest)"

definition get_function_parameters :: "callDef option \<Rightarrow> string list list" where
  "get_function_parameters callDef =
     (case callDef of None \<Rightarrow> [] | Some cd \<Rightarrow> extract_params (params cd))"

section \<open>The facade's operations\<close>

text \<open>
  \<^verbatim>\<open>name, value = parameter\<close> raises \<^verbatim>\<open>ValueError\<close> unless the list has exactly two
  elements. The statement stands in a \<^verbatim>\<open>try\<close> whose handler is \<^verbatim>\<open>except IndexError\<close>:
  the handler sets \<^verbatim>\<open>name = parameter[0]\<close> (an \<^verbatim>\<open>IndexError\<close> of its own on an empty list)
  and \<^verbatim>\<open>value = None\<close>; every other exception propagates.
\<close>

definition unpack_pair :: "string list \<Rightarrow> exn + string \<times> string" where
  "unpack_pair parameter =
     (case parameter of [name, val] \<Rightarrow> Inr (name, val) | _ \<Rightarrow> Inl ValueError)"

definition name_and_value :: "string list \<Rightarrow> exn + string \<times> string option" where
  "name_and_value parameter =
     (case unpack_pair parameter of
        Inr (name, val) \<Rightarrow> Inr (name, Some val)
      | Inl e \<Rightarrow>
          if e = IndexError
          then (case parameter of [] \<Rightarrow> Inl IndexError | name # _ \<Rightarrow> Inr (name, None))
          else Inl e)"

text \<open>The loop of \<^verbatim>\<open>_parameters_for_completion\<close>, with the list \<^verbatim>\<open>completions\<close> built so far as \<open>compls\<close>.\<close>

fun parameters_loop ::
  "string list list \<Rightarrow> (string \<times> string) list \<Rightarrow> exn + (string \<times> string) list" where
  "parameters_loop [] compls = Inr compls"
| "parameters_loop (parameter # rest) compls =
     (case name_and_value parameter of
        Inl e \<Rightarrow> Inl e
      | Inr (name, None) \<Rightarrow>
          parameters_loop rest (compls @ [(name, ''${1:'' @ name @ ''}'')])
      | Inr (name, Some val) \<Rightarrow>
          parameters_loop rest
            (compls @ [(name @ [CHR 0x09] @ val, name @ ''=${1:'' @ val @ ''}'')]))"

definition JediFacade_parameters_for_completion :: "script \<Rightarrow> exn + (string \<times> string) list" where
  "JediFacade_parameters_for_completion self =
     (case call_signatures self of
        Inl e \<Rightarrow> Inl e
      | Inr in_call \<Rightarrow> parameters_loop (get_function_parameters in_call) [])"

definition JediFacade_completion :: "script \<Rightarrow> exn + (string \<times> string) list" where
  "JediFacade_completion self =
     (case completions self of
        Inl e \<Rightarrow> Inl e
      | Inr cs \<Rightarrow> Inr (map format_completion cs))"

text \<open>
  \<^verbatim>\<open>get_autocomplete\<close>: \<^verbatim>\<open>x or []\<close> is \<^verbatim>\<open>x\<close> itself for a non-empty list and \<^verbatim>\<open>[]\<close> for an
  empty one, so both uses of \<^verbatim>\<open>or\<close> leave the list as it is.
\<close>

definition get_autocomplete :: "script \<Rightarrow> exn + (string \<times> string) list" where
  "get_autocomplete self =
     (case JediFacade_parameters_for_completion self of
        Inl e \<Rightarrow> Inl e
      | Inr data \<Rightarrow>
          (case JediFacade_completion self of
             Inl e \<Rightarrow> Inl e
           | Inr cs \<Rightarrow> Inr (data @ cs)))"

text \<open>
  \<^verbatim>\<open>_goto\<close> catches \<^verbatim>\<open>NotFoundError\<close> and returns \<^verbatim>\<open>None\<close>; \<^verbatim>\<open>_usages\<close> has no handler.
\<close>

definition locations :: "definition_site list \<Rightarrow> (string \<times> int \<times> int) list" where
  "locations ds =
     map (\<lambda>i. (module_path i, d_line i, d_column i)) (filter (\<lambda>i. \<not> in_builtin_module i) ds)"

definition JediFacade_goto :: "script \<Rightarrow> exn + (string \<times> int \<times> int) list option" where
  "JediFacade_goto self =
     (case goto_assignments self of
        Inl e \<Rightarrow> if e = NotFoundError then Inr None else Inl e
      | Inr definitions \<Rightarrow> Inr (Some (locations definitions)))"

definition get_goto :: "script \<Rightarrow> exn + (string \<times> int \<times> int) list option" where
  "get_goto self = JediFacade_goto self"

definition JediFacade_usages :: "script \<Rightarrow> exn + (string \<times> int \<times> int) list" where
  "JediFacade_usages self =
     (case usages self of
        Inl e \<Rightarrow> Inl e
      | Inr us \<Rightarrow> Inr (locations us))"

definition get_usages :: "script \<Rightarrow> exn + (string \<times> int \<times> int) list" where
  "get_usages self = JediFacade_usages self"

text \<open>
  The loop of \<^verbatim>\<open>_complete_call_assigments\<close> over \<^verbatim>\<open>enumerate(parameters)\<close>; the module
  variable \<^verbatim>\<open>auto_complete_function_params\<close> is passed explicitly.
\<close>

fun call_assigments_loop ::
  "bool \<Rightarrow> nat \<Rightarrow> string list list \<Rightarrow> string list \<Rightarrow> exn + string list" where
  "call_assigments_loop complete_all index [] compls = Inr compls"
| "call_assigments_loop complete_all index (parameter # rest) compls =
     (case name_and_value parameter of
        Inl e \<Rightarrow> Inl e
      | Inr (name, None) \<Rightarrow>
          call_assigments_loop complete_all (index + 1) rest
            (compls @ [''${'' @ str_of_nat (index + 1) @ '':'' @ name @ ''}''])
      | Inr (name, Some val) \<Rightarrow>
          if complete_all
          then call_assigments_loop complete_all (index + 1) rest
                 (compls @ [name @ ''=${'' @ str_of_nat (index + 1) @ '':'' @ val @ ''}''])
          else call_assigments_loop complete_all (index + 1) rest compls)"

definition JediFacade_complete_call_assigments :: "string \<Rightarrow> script \<Rightarrow> exn + string" where
  "JediFacade_complete_call_assigments auto_complete_function_params self =
     (let complete_all = (auto_complete_function_params = ''all'') in
      case call_signatures self of
        Inl e \<Rightarrow> Inl e
      | Inr in_call \<Rightarrow>
          (case call_assigments_loop complete_all 0 (get_function_parameters in_call) [] of
             Inl e \<Rightarrow> Inl e
           | Inr compls \<Rightarrow> Inr (str_join '', '' compls)))"

definition get_funcargs :: "string \<Rightarrow> script \<Rightarrow> exn + string" where
  "get_funcargs auto_complete_function_params self =
     JediFacade_complete_call_assigments auto_complete_function_params self"

section \<open>Requests, responses and the output writer\<close>

text \<open>
  The values that travel through \<^verbatim>\<open>process_line\<close>: what \<^verbatim>\<open>json.loads\<close> returns (floating
  point numbers left out), and the bound method that \<^verbatim>\<open>JediFacade.get\<close> returns. A
  \<^verbatim>\<open>dict\<close> with string keys is an association list in insertion order, read with
  \<open>map_of\<close> and written with \<open>AList.update\<close>.
\<close>

datatype bound_method = Get_goto | Get_usages | Get_funcargs | Get_autocomplete

datatype pyval =
    PNone | PBool bool | PInt int | PStr string
  | PList "pyval list" | PDict "(string \<times> pyval) list" | PMethod bound_method

fun truthy :: "pyval \<Rightarrow> bool" where
  "truthy PNone = False"
| "truthy (PBool b) = b"
| "truthy (PInt n) = (n \<noteq> 0)"
| "truthy (PStr s) = (s \<noteq> [])"
| "truthy (PList xs) = (xs \<noteq> [])"
| "truthy (PDict d) = (d \<noteq> [])"
| "truthy (PMethod m) = True"

text \<open>
  \<^verbatim>\<open>json.dumps(data)\<close> with its default arguments: separators \<^verbatim>\<open>', '\<close> and \<^verbatim>\<open>': '\<close>, and
  \<^verbatim>\<open>ensure_ascii\<close>, under which every character outside the printable ASCII range, the
  double quote (code 34) and the backslash (code 92) are written as escapes. A bound method is
  not serializable: \<^verbatim>\<open>TypeError\<close>.
\<close>

definition hex_digit :: "nat \<Rightarrow> char" where
  "hex_digit n = (if n < 10 then char_of (48 + n) else char_of (87 + n))"

definition escape_char :: "char \<Rightarrow> string" where
  "escape_char c =
     (let n = (of_char c :: nat) in
      if n = 34 then [CHR 0x5C, CHR 0x22]
      else if n = 92 then [CHR 0x5C, CHR 0x5C]
      else if n = 10 then [CHR 0x5C, CHR ''n'']
      else if n = 13 then [CHR 0x5C, CHR ''r'']
      else if n = 9 then [CHR 0x5C, CHR ''t'']
      else if n = 12 then [CHR 0x5C, CHR ''f'']
      else if n = 8 then [CHR 0x5C, CHR ''b'']
      else if 32 \<le> n \<and> n \<le> 126 then [c]
      else [CHR 0x5C, CHR ''u'', CHR ''0'', CHR ''0'', hex_digit (n div 16), hex_digit (n mod 16)])"

definition json_str :: "string \<Rightarrow> string" where
  "json_str s = [CHR 0x22] @ concat (map escape_char s) @ [CHR 0x22]"

definition str_of_int :: "int \<Rightarrow> string" where
  "str_of_int i = (if i < 0 then CHR ''-'' # str_of_nat (nat (- i)) else str_of_nat (nat i))"

fun json_dumps :: "pyval \<Rightarrow> exn + string"
  and dumps_items :: "pyval list \<Rightarrow> exn + string list"
  and dumps_pairs :: "(string \<times> pyval) list \<Rightarrow> exn + string list" where
  "json_dumps PNone = Inr ''null''"
| "json_dumps (PBool b) = Inr (if b then ''true'' else ''false'')"
| "json_dumps (PInt i) = Inr (str_of_int i)"
| "json_dumps (PStr s) = Inr (json_str s)"
| "json_dumps (PList xs) =
     (case dumps_items xs of
        Inl e \<Rightarrow> Inl e
      | Inr ss \<Rightarrow> Inr (''['' @ str_join '', '' ss @ '']''))"
| "json_dumps (PDict d) =
     (case dumps_pairs d of
        Inl e \<Rightarrow> Inl e
      | Inr ss \<Rightarrow> Inr (''{'' @ str_join '', '' ss @ ''}''))"
| "json_dumps (PMethod m) = Inl TypeError"
| "dumps_items [] = Inr []"
| "dumps_items (x # xs) =
     (case json_dumps x of
        Inl e \<Rightarrow> Inl e
      | Inr s \<Rightarrow> (case dumps_items xs of Inl e \<Rightarrow> Inl e | Inr ss \<Rightarrow> Inr (s # ss)))"
| "dumps_pairs [] = Inr []"
| "dumps_pairs ((k, v) # kvs) =
     (case json_dumps v of
        Inl e \<Rightarrow> Inl e
      | Inr s \<Rightarrow>
          (case dumps_pairs kvs of
             Inl e \<Rightarrow> Inl e
           | Inr ss \<Rightarrow> Inr ((json_str k @ '': '' @ s) # ss)))"

text \<open>
  Standard output: the text written so far, and whether the consumer has closed its end, in
  which case \<^verbatim>\<open>sys.stdout.flush()\<close> raises \<^verbatim>\<open>IOError\<close>.
\<close>

record stdout =
  written :: string
  consumer_closed :: bool

definition stdout_write :: "string \<Rightarrow> stdout \<Rightarrow> stdout" where
  "stdout_write text out = out\<lparr>written := written out @ text\<rparr>"

definition stdout_flush :: "stdout \<Rightarrow> exn + unit" where
  "stdout_flush out = (if consumer_closed out then Inl IOError else Inr ())"

text \<open>
  \<^verbatim>\<open>write\<close>, here \<open>write_stdout\<close> (\<open>write\<close> is a reserved word of the theory
  language): \<open>write_text\<close> is its first statement (a \<^verbatim>\<open>str\<close> is kept, anything else goes
  through \<^verbatim>\<open>json.dumps\<close>); the handler of the \<^verbatim>\<open>try\<close> turns the \<^verbatim>\<open>IOError\<close> of the flush
  into \<^verbatim>\<open>sys.exit()\<close>.
\<close>

definition write_text :: "pyval \<Rightarrow> exn + string" where
  "write_text data = (case data of PStr s \<Rightarrow> Inr s | _ \<Rightarrow> json_dumps data)"

definition write_stdout :: "pyval \<Rightarrow> stdout \<Rightarrow> (exn + unit) \<times> stdout" where
  "write_stdout data out =
     (case write_text data of
        Inl e \<Rightarrow> (Inl e, out)
      | Inr text \<Rightarrow>
          (let out1 = stdout_write text out;
               out2 = (if \<not> endswith_newline text then stdout_write [CHR 0x0A] out1 else out1)
           in case stdout_flush out2 of
                Inl e \<Rightarrow> if e = IOError then (Inl SystemExit, out2) else (Inl e, out2)
              | Inr u \<Rightarrow> (Inr (), out2)))"

section \<open>Facade construction and the request dispatcher\<close>

text \<open>
  What the daemon takes from outside the repository: \<^verbatim>\<open>json.loads\<close>, the builtin \<^verbatim>\<open>int\<close>
  and the engine's \<^verbatim>\<open>jedi.Script\<close>. They are parameters of the model.
\<close>

record runtime =
  json_loads :: "string \<Rightarrow> exn + pyval"
  builtin_int :: "pyval \<Rightarrow> exn + int"
  jedi_Script :: "pyval \<Rightarrow> int \<Rightarrow> int \<Rightarrow> pyval \<Rightarrow> pyval \<Rightarrow> exn + script"

text \<open>
  \<^verbatim>\<open>JediFacade(**kwargs)\<close>: binding the keywords to the parameters of \<^verbatim>\<open>__init__\<close> raises
  \<^verbatim>\<open>TypeError\<close> for a keyword that is not a parameter and for a missing \<^verbatim>\<open>source\<close>,
  \<^verbatim>\<open>line\<close> or \<^verbatim>\<open>offset\<close>; then the body runs. The facade's state is its \<^verbatim>\<open>script\<close>.
\<close>

definition JediFacade_init :: "runtime \<Rightarrow> (string \<times> pyval) list \<Rightarrow> exn + script" where
  "JediFacade_init rt kwargs =
     (if list_ex (\<lambda>k. k \<notin> set [''source'', ''line'', ''offset'', ''filename'', ''encoding''])
           (map fst kwargs)
      then Inl TypeError
      else
        (case (map_of kwargs ''source'', map_of kwargs ''line'', map_of kwargs ''offset'') of
           (Some source, Some line, Some offset) \<Rightarrow>
             (let filename = (case map_of kwargs ''filename'' of None \<Rightarrow> PStr [] | Some f \<Rightarrow> f);
                  encoding = (case map_of kwargs ''encoding'' of None \<Rightarrow> PStr ''utf-8'' | Some c \<Rightarrow> c)
              in case builtin_int rt line of
                   Inl e \<Rightarrow> Inl e
                 | Inr l \<Rightarrow>
                     (case builtin_int rt offset of
                        Inl e \<Rightarrow> Inl e
                      | Inr c \<Rightarrow> jedi_Script rt source l c filename encoding))
         | _ \<Rightarrow> Inl TypeError))"

text \<open>
  \<^verbatim>\<open>get\<close> returns \<^verbatim>\<open>getattr(self, 'get_' + action)\<close>: the bound method itself, which it does
  not call. The concatenation raises \<^verbatim>\<open>TypeError\<close> unless \<^verbatim>\<open>action\<close> is a \<^verbatim>\<open>str\<close>.
\<close>

definition JediFacade_get :: "pyval \<Rightarrow> exn + bound_method" where
  "JediFacade_get action =
     (case action of
        PStr a \<Rightarrow>
          (let attr = ''get_'' @ a in
           if attr = ''get_goto'' then Inr Get_goto
           else if attr = ''get_usages'' then Inr Get_usages
           else if attr = ''get_funcargs'' then Inr Get_funcargs
           else if attr = ''get_autocomplete'' then Inr Get_autocomplete
           else Inl AttributeError)
      | _ \<Rightarrow> Inl TypeError)"

text \<open>
  \<^verbatim>\<open>process_line\<close>. \<^verbatim>\<open>data.get\<close> exists only on a \<^verbatim>\<open>dict\<close> (\<^verbatim>\<open>AttributeError\<close> otherwise)
  and leaves \<^verbatim>\<open>data\<close> as it is, as does \<^verbatim>\<open>data['uuid']\<close>. The dictionary display evaluates
  \<^verbatim>\<open>data['uuid']\<close>, then \<^verbatim>\<open>JediFacade(**data)\<close>, then \<^verbatim>\<open>.get(action_type)\<close>, and only then
  builds \<^verbatim>\<open>out_data\<close>.
\<close>

definition process_line :: "runtime \<Rightarrow> string \<Rightarrow> stdout \<Rightarrow> (exn + unit) \<times> stdout" where
  "process_line rt line out =
     (case json_loads rt (strip line) of
        Inl e \<Rightarrow> (Inl e, out)
      | Inr (PDict data) \<Rightarrow>
          (let action_type = (case map_of data ''type'' of None \<Rightarrow> PNone | Some v \<Rightarrow> v) in
           if \<not> truthy action_type then (Inl AssertionError, out)
           else
             (case map_of data ''uuid'' of
                None \<Rightarrow> (Inl KeyError, out)
              | Some uuid \<Rightarrow>
                  (case JediFacade_init rt data of
                     Inl e \<Rightarrow> (Inl e, out)
                   | Inr self \<Rightarrow>
                       (case JediFacade_get action_type of
                          Inl e \<Rightarrow> (Inl e, out)
                        | Inr m \<Rightarrow>
                            (case action_type of
                               PStr a \<Rightarrow>
                                 write_stdout
                                   (PDict
                                     (AList.update a (PMethod m)
                                       (AList.update ''type'' action_type
                                         (AList.update ''uuid'' uuid []))))
                                   out
                             | _ \<Rightarrow> (Inl TypeError, out))))))
      | Inr _ \<Rightarrow> (Inl AttributeError, out))"

section \<open>The daemon loop\<close>

text \<open>
  Standard input is the list of the lines that successive calls of \<^verbatim>\<open>sys.stdin.readline\<close>
  return; after the last one \<^verbatim>\<open>readline\<close> returns the empty string, the sentinel at which
  \<^verbatim>\<open>iter(sys.stdin.readline, '')\<close> stops. \<^verbatim>\<open>except Exception\<close> catches every exception but
  \<^verbatim>\<open>SystemExit\<close>, and \<^verbatim>\<open>log.exception\<close> appends an entry to the log.
\<close>

record daemon =
  stdout_of :: stdout
  logged :: "exn list"

datatype ending = EndOfInput | Exited

text \<open>
  The body of the \<^verbatim>\<open>for\<close> loop for one line: the new state, and whether the process is still
  running (\<open>False\<close> when \<^verbatim>\<open>SystemExit\<close> passed the handler).
\<close>

definition loop_body :: "runtime \<Rightarrow> string \<Rightarrow> daemon \<Rightarrow> bool \<times> daemon" where
  "loop_body rt line d =
     (if line \<noteq> [] then
        (case process_line rt line (stdout_of d) of
           (Inr u, out) \<Rightarrow> (True, d\<lparr>stdout_of := out\<rparr>)
         | (Inl e, out) \<Rightarrow>
             if is_Exception e
             then (True, d\<lparr>stdout_of := out, logged := logged d @ [e]\<rparr>)
             else (False, d\<lparr>stdout_of := out\<rparr>))
      else (True, d))"

fun daemon_loop :: "runtime \<Rightarrow> string list \<Rightarrow> daemon \<Rightarrow> ending \<times> daemon" where
  "daemon_loop rt [] d = (EndOfInput, d)"
| "daemon_loop rt (line # rest) d =
     (if line = [] then (EndOfInput, d)
      else if fst (loop_body rt line d)
      then daemon_loop rt rest (snd (loop_body rt line d))
      else (Exited, snd (loop_body rt line d)))"

section \<open>Notions used to state the properties\<close>

text \<open>
  The number of newline characters at the end of a text, the text that a call adds to
  standard output, and a parsed request whose \<^verbatim>\<open>type\<close> field is absent or falsy (a document
  that is not an object has no fields at all).
\<close>

definition trailing_newlines :: "string \<Rightarrow> nat" where
  "trailing_newlines s = length (takeWhile (\<lambda>c. c = CHR 0x0A) (rev s))"

definition emitted :: "stdout \<Rightarrow> stdout \<Rightarrow> string" where
  "emitted before after = drop (length (written before)) (written after)"

definition type_absent_or_falsy :: "pyval \<Rightarrow> bool" where
  "type_absent_or_falsy data =
     (case data of
        PDict d \<Rightarrow> (case map_of d ''type'' of None \<Rightarrow> True | Some v \<Rightarrow> \<not> truthy v)
      | _ \<Rightarrow> True)"

text \<open>
  The exception with which \<^verbatim>\<open>process_line\<close> ends on a line, read off its statements in
  order: the failure of \<^verbatim>\<open>json.loads\<close>, of \<^verbatim>\<open>data.get\<close>, of the assertion, of
  \<^verbatim>\<open>data['uuid']\<close>, and last of \<^verbatim>\<open>JediFacade(**data)\<close>, which the key \<^verbatim>\<open>type\<close> makes certain.
  That \<^verbatim>\<open>process_line\<close> ends so on every line is the lemma \<open>process_line_raises\<close> below.
\<close>

definition dispatch_failure :: "runtime \<Rightarrow> string \<Rightarrow> exn" where
  "dispatch_failure rt line =
     (case json_loads rt (strip line) of
        Inl e \<Rightarrow> e
      | Inr (PDict data) \<Rightarrow>
          if \<not> truthy (case map_of data ''type'' of None \<Rightarrow> PNone | Some v \<Rightarrow> v)
          then AssertionError
          else if map_of data ''uuid'' = None then KeyError else TypeError
      | Inr _ \<Rightarrow> AttributeError)"

section \<open>Example inputs\<close>

text \<open>
  The request line of the end-to-end example, the value it parses to, and a session in which
  no call signature is active and the engine reports the one completion \<^verbatim>\<open>path\<close> of type
  \<^verbatim>\<open>module\<close>. \<open>json_str\<close> supplies the quoted names; in the line the newline of the source
  text is the two characters backslash and \<^verbatim>\<open>n\<close>.
\<close>

definition c1_line :: string where
  "c1_line =
     ''{'' @ json_str ''type'' @ '':'' @ json_str ''autocomplete'' @ '','' @
     json_str ''uuid'' @ '':'' @ json_str ''1'' @ '','' @
     json_str ''source'' @ '':'' @ json_str (''import os'' @ [CHR 0x0A] @ ''os.'') @ '','' @
     json_str ''line'' @ '':2,'' @ json_str ''offset'' @ '':3,'' @
     json_str ''filename'' @ '':'' @ json_str [] @ '','' @
     json_str ''encoding'' @ '':'' @ json_str ''utf-8'' @ ''}'' @ [CHR 0x0A]"

definition c1_request :: pyval where
  "c1_request =
     PDict [(''type'', PStr ''autocomplete''), (''uuid'', PStr ''1''),
            (''source'', PStr (''import os'' @ [CHR 0x0A] @ ''os.'')),
            (''line'', PInt 2), (''offset'', PInt 3),
            (''filename'', PStr []), (''encoding'', PStr ''utf-8'')]"

definition c1_script :: script where
  "c1_script =
     \<lparr>call_signatures = Inr None,
      completions = Inr [\<lparr>c_name = ''path'', c_type = ''module''\<rparr>],
      goto_assignments = Inr [], usages = Inr []\<rparr>"

text \<open>A request line without a \<^verbatim>\<open>type\<close> field.\<close>

definition no_type_line :: string where
  "no_type_line = ''{'' @ json_str ''uuid'' @ '': '' @ json_str ''7'' @ ''}'' @ [CHR 0x0A]"

text \<open>
  A runtime for the examples: its \<^verbatim>\<open>json.loads\<close> knows the two request lines above and
  raises \<^verbatim>\<open>ValueError\<close> on every other text, its engine answers every session with
  \<open>c1_script\<close>, and for \<^verbatim>\<open>int\<close> it has a stand-in that converts integers and booleans only
  (the examples never call it).
\<close>

definition example_documents :: "(string \<times> pyval) list" where
  "example_documents =
     [(strip c1_line, c1_request),
      (strip no_type_line, PDict [(''uuid'', PStr ''7'')])]"

definition example_runtime :: runtime where
  "example_runtime =
     \<lparr>json_loads =
        (\<lambda>s. case map_of example_documents s of None \<Rightarrow> Inl ValueError | Some v \<Rightarrow> Inr v),
      builtin_int =
        (\<lambda>v. case v of PInt i \<Rightarrow> Inr i | PBool b \<Rightarrow> Inr (if b then 1 else 0)
              | _ \<Rightarrow> Inl TypeError),
      jedi_Script = (\<lambda>source l c filename encoding. Inr c1_script)\<rparr>"

definition open_stdout :: stdout where
  "open_stdout = \<lparr>written = [], consumer_closed = False\<rparr>"

definition fresh_daemon :: daemon where
  "fresh_daemon = \<lparr>stdout_of = open_stdout, logged = []\<rparr>"

text \<open>
  Sessions inside a call: of \<^verbatim>\<open>f(a)\<close>, of \<^verbatim>\<open>f(a, b=5)\<close>, of \<^verbatim>\<open>f(a=1, b=5)\<close> and of
  \<^verbatim>\<open>f(*args)\<close>; and a session in which the engine finds neither a definition nor a usage.
\<close>

definition required_param_script :: script where
  "required_param_script =
     \<lparr>call_signatures = Inr (Some \<lparr>params = [''a'']\<rparr>),
      completions = Inr [\<lparr>c_name = ''path'', c_type = ''module''\<rparr>],
      goto_assignments = Inr [], usages = Inr []\<rparr>"

definition a_b5_script :: script where
  "a_b5_script =
     \<lparr>call_signatures = Inr (Some \<lparr>params = [''a'', ''b=5'']\<rparr>),
      completions = Inr [], goto_assignments = Inr [], usages = Inr []\<rparr>"

definition defaults_script :: script where
  "defaults_script =
     \<lparr>call_signatures = Inr (Some \<lparr>params = [''a=1'', ''b=5'']\<rparr>),
      completions = Inr [], goto_assignments = Inr [], usages = Inr []\<rparr>"

definition star_args_script :: script where
  "star_args_script =
     \<lparr>call_signatures = Inr (Some \<lparr>params = [''*args'']\<rparr>),
      completions = Inr [\<lparr>c_name = ''path'', c_type = ''module''\<rparr>],
      goto_assignments = Inr [], usages = Inr []\<rparr>"

definition not_found_script :: script where
  "not_found_script =
     \<lparr>call_signatures = Inr None, completions = Inr [],
      goto_assignments = Inl NotFoundError, usages = Inl NotFoundError\<rparr>"

text \<open>A string that ends in two newlines, and a small structured value.\<close>

definition two_newlines :: pyval where
  "two_newlines = PStr (''a'' @ [CHR 0x0A, CHR 0x0A])"

definition small_response :: pyval where
  "small_response = PList [PStr ''path'', PInt 3]"

section \<open>Facts about the helpers\<close>

lemma strip_strip: "strip (strip s) = strip s"
proof -
  define P where "P = py_isspace"
  define u where "u = dropWhile P s"
  define t where "t = rev (dropWhile P (rev u))"
  have ut: "u = t @ rev (takeWhile P (rev u))"
    unfolding t_def by (metis rev_append rev_rev_ident takeWhile_dropWhile_id)
  have "dropWhile P t = t"
  proof (cases "t = []")
    case True
    then show ?thesis by simp
  next
    case False
    then have "u \<noteq> []" using ut by auto
    then have "\<not> P (hd u)" unfolding u_def by (rule hd_dropWhile)
    moreover have "hd u = hd t" using ut False by (metis hd_append2)
    ultimately show ?thesis using False by (cases t) auto
  qed
  moreover have "dropWhile P (rev t) = rev t"
    unfolding t_def by (simp add: dropWhile_idem)
  ultimately show ?thesis
    unfolding strip_def t_def u_def P_def by simp
qed

lemma str_split_no_sep: "sep \<notin> set s \<Longrightarrow> str_split sep s = [s]"
  by (induction s) auto

lemma extract_params_member:
  "p \<in> set ps \<Longrightarrow> CHR ''*'' \<notin> set (strip p) \<Longrightarrow> strip p \<noteq> ''self'' \<Longrightarrow>
   map strip (str_split CHR ''='' (strip p)) \<in> set (extract_params ps)"
  by (induction ps) (auto simp: Let_def)

lemma name_and_value_pair: "length p = 2 \<Longrightarrow> name_and_value p = Inr (p ! 0, Some (p ! 1))"
proof -
  assume "length p = 2"
  then obtain a b where "p = [a, b]"
    by (auto simp: numeral_2_eq_2 length_Suc_conv)
  then show ?thesis by (simp add: name_and_value_def unpack_pair_def)
qed

lemma name_and_value_fail: "length p \<noteq> 2 \<Longrightarrow> name_and_value p = Inl ValueError"
  by (auto simp: name_and_value_def unpack_pair_def split: list.splits)

lemma parameters_loop_fail:
  "\<exists>p\<in>set ps. length p \<noteq> 2 \<Longrightarrow> parameters_loop ps acc = Inl ValueError"
proof (induction ps arbitrary: acc)
  case Nil
  then show ?case by simp
next
  case (Cons p ps)
  show ?case
  proof (cases "length p = 2")
    case True
    with Cons.prems have "\<exists>q\<in>set ps. length q \<noteq> 2" by auto
    then show ?thesis using True Cons.IH by (simp add: name_and_value_pair)
  next
    case False
    then show ?thesis by (simp add: name_and_value_fail)
  qed
qed

lemma call_assigments_loop_fail:
  "\<exists>p\<in>set ps. length p \<noteq> 2 \<Longrightarrow> call_assigments_loop b i ps acc = Inl ValueError"
proof (induction ps arbitrary: acc i)
  case Nil
  then show ?case by simp
next
  case (Cons p ps)
  show ?case
  proof (cases "length p = 2")
    case True
    with Cons.prems have "\<exists>q\<in>set ps. length q \<noteq> 2" by auto
    then show ?thesis using True Cons.IH by (cases b) (simp_all add: name_and_value_pair)
  next
    case False
    then show ?thesis by (simp add: name_and_value_fail)
  qed
qed

lemma parameters_loop_defaults:
  "\<forall>p\<in>set ps. length p = 2 \<Longrightarrow>
   parameters_loop ps acc =
     Inr (acc @ map (\<lambda>p. (p ! 0 @ [CHR 0x09] @ p ! 1, p ! 0 @ ''=${1:'' @ p ! 1 @ ''}'')) ps)"
  by (induction ps arbitrary: acc) (simp_all add: name_and_value_pair)

lemma call_assigments_loop_all:
  "\<forall>p\<in>set ps. length p = 2 \<Longrightarrow>
   call_assigments_loop True i ps acc =
     Inr (acc @ map (\<lambda>(k, p). p ! 0 @ ''=${'' @ str_of_nat (k + 1) @ '':'' @ p ! 1 @ ''}'')
                  (enumerate i ps))"
  by (induction ps arbitrary: acc i) (simp_all add: name_and_value_pair)

lemma call_assigments_loop_not_all:
  "\<forall>p\<in>set ps. length p = 2 \<Longrightarrow> call_assigments_loop False i ps acc = Inr acc"
  by (induction ps arbitrary: acc i) (simp_all add: name_and_value_pair)

text \<open>Trailing newlines, and the last character of what \<open>json_dumps\<close> returns.\<close>

lemma trailing_newlines_0: "\<not> endswith_newline s \<Longrightarrow> trailing_newlines s = 0"
  by (cases s rule: rev_cases) (simp_all add: endswith_newline_def trailing_newlines_def)

lemma trailing_newlines_snoc: "trailing_newlines (s @ [CHR 0x0A]) = Suc (trailing_newlines s)"
  by (simp add: trailing_newlines_def)

lemma trailing_newlines_pos: "endswith_newline s \<Longrightarrow> 1 \<le> trailing_newlines s"
  by (cases s rule: rev_cases) (simp_all add: endswith_newline_def trailing_newlines_def)

lemma str_of_nat_last: "str_of_nat n \<noteq> [] \<and> last (str_of_nat n) = char_of (48 + n mod 10)"
  by (subst (1 2) str_of_nat.simps) simp

lemma digit_not_newline: "char_of (48 + n mod 10 :: nat) \<noteq> CHR 0x0A"
proof
  define k where "k = n mod 10"
  assume a: "char_of (48 + n mod 10) = CHR 0x0A"
  have k: "k < 10" by (simp add: k_def)
  have "take_bit 8 (48 + k) = (of_char (CHR 0x0A) :: nat)"
    using a unfolding k_def by (simp only: char_of_eq_iff)
  then have "(48 + k) mod 2 ^ 8 = (10 :: nat)"
    by (simp only: take_bit_eq_mod of_char_Char horner_sum_simps of_bool_eq) simp
  moreover have "(48 + k) mod 2 ^ 8 = 48 + k"
    using k by (intro mod_less) simp
  ultimately show False by simp
qed

lemma str_of_int_no_trailing_newline: "\<not> endswith_newline (str_of_int i)"
  using str_of_nat_last [of "nat i"] digit_not_newline [of "nat i"]
        str_of_nat_last [of "nat (- i)"] digit_not_newline [of "nat (- i)"]
  by (simp add: endswith_newline_def str_of_int_def)

lemma json_dumps_no_trailing_newline: "json_dumps v = Inr t \<Longrightarrow> \<not> endswith_newline t"
proof (cases v)
  case (PInt i)
  assume "json_dumps v = Inr t"
  with PInt show ?thesis using str_of_int_no_trailing_newline [of i] by simp
next
  case (PStr s)
  assume "json_dumps v = Inr t"
  with PStr show ?thesis by (auto simp: json_str_def endswith_newline_def)
next
  case (PList xs)
  assume "json_dumps v = Inr t"
  with PList show ?thesis by (auto simp: endswith_newline_def split: sum.splits)
next
  case (PDict d)
  assume "json_dumps v = Inr t"
  with PDict show ?thesis by (auto simp: endswith_newline_def split: sum.splits)
next
  case (PBool b)
  assume "json_dumps v = Inr t"
  with PBool show ?thesis by (cases b) (auto simp: endswith_newline_def)
qed (auto simp: endswith_newline_def)

text \<open>
  \<open>json_dumps\<close> raises nothing but \<^verbatim>\<open>TypeError\<close>, and raises it on a dictionary that holds
  a bound method: the \<^verbatim>\<open>out_data\<close> that \<^verbatim>\<open>process_line\<close> would hand to \<^verbatim>\<open>write\<close>.
\<close>

lemma dumps_errors:
  "json_dumps v = Inl e \<Longrightarrow> e = TypeError"
  "dumps_items vs = Inl e \<Longrightarrow> e = TypeError"
  "dumps_pairs kvs = Inl e \<Longrightarrow> e = TypeError"
  by (induction v and vs and kvs arbitrary: e and e and e
      rule: json_dumps_dumps_items_dumps_pairs.induct)
     (auto split: sum.splits)

lemma dumps_pairs_method:
  "(k, PMethod m) \<in> set kvs \<Longrightarrow> dumps_pairs kvs = Inl TypeError"
proof (induction kvs)
  case Nil
  then show ?case by simp
next
  case (Cons kv kvs)
  obtain k' v' where kv: "kv = (k', v')" by (cases kv)
  show ?case
  proof (cases "json_dumps v'")
    case (Inl e)
    then show ?thesis using kv dumps_errors(1) [OF Inl] by simp
  next
    case (Inr s)
    then have "v' \<noteq> PMethod m" by auto
    with Cons.prems kv have "(k, PMethod m) \<in> set kvs" by auto
    then show ?thesis using kv Inr Cons.IH by simp
  qed
qed

lemma out_data_not_serializable:
  "write_stdout (PDict (AList.update a (PMethod m) d)) out = (Inl TypeError, out)"
proof -
  have "map_of (AList.update a (PMethod m) d) a = Some (PMethod m)"
    by (simp add: update_conv')
  then have "(a, PMethod m) \<in> set (AList.update a (PMethod m) d)"
    by (rule map_of_SomeD)
  then show ?thesis
    by (simp add: write_stdout_def write_text_def dumps_pairs_method)
qed

section \<open>What the dispatcher does with a parsed line\<close>

text \<open>
  A dictionary that passed the assertion has the key \<^verbatim>\<open>type\<close>, which is not a parameter of
  \<^verbatim>\<open>__init__\<close>. So \<^verbatim>\<open>process_line\<close> raises on every line and writes nothing.
\<close>

lemma JediFacade_init_unexpected_keyword:
  "map_of kwargs ''type'' = Some v \<Longrightarrow> JediFacade_init rt kwargs = Inl TypeError"
proof -
  assume "map_of kwargs ''type'' = Some v"
  then have "(''type'', v) \<in> set kwargs" by (rule map_of_SomeD)
  then have "''type'' \<in> set (map fst kwargs)" by force
  then have "list_ex (\<lambda>k. k \<notin> set [''source'', ''line'', ''offset'', ''filename'', ''encoding''])
           (map fst kwargs)"
    unfolding list_ex_iff by (intro bexI[of _ "''type''"]) simp_all
  then show ?thesis unfolding JediFacade_init_def by simp
qed

lemma process_line_dict:
  assumes "json_loads rt (strip line) = Inr (PDict data)"
  shows "process_line rt line out =
     (Inl (if \<not> truthy (case map_of data ''type'' of None \<Rightarrow> PNone | Some v \<Rightarrow> v)
           then AssertionError
           else if map_of data ''uuid'' = None then KeyError else TypeError), out)"
proof (cases "map_of data ''type''")
  case None
  then show ?thesis using assms by (simp add: process_line_def)
next
  case (Some v)
  then show ?thesis using assms JediFacade_init_unexpected_keyword [OF Some, of rt]
    by (simp add: process_line_def split: option.splits)
qed

lemma process_line_not_dict:
  assumes "json_loads rt (strip line) = Inr data" and "\<forall>d. data \<noteq> PDict d"
  shows "process_line rt line out = (Inl AttributeError, out)"
  using assms by (cases data) (simp_all add: process_line_def)

lemma process_line_never_returns: "\<exists>e. process_line rt line out = (Inl e, out)"
proof (cases "json_loads rt (strip line)")
  case (Inl e)
  then show ?thesis by (simp add: process_line_def)
next
  case (Inr data)
  show ?thesis
  proof (cases "\<exists>d. data = PDict d")
    case True
    then show ?thesis using Inr process_line_dict by blast
  next
    case False
    then show ?thesis using Inr process_line_not_dict by blast
  qed
qed

lemma process_line_raises: "process_line rt line out = (Inl (dispatch_failure rt line), out)"
proof (cases "json_loads rt (strip line)")
  case (Inl e)
  then show ?thesis by (simp add: process_line_def dispatch_failure_def)
next
  case (Inr data)
  show ?thesis
  proof (cases "\<exists>x. data = PDict x")
    case True
    then obtain x where x: "data = PDict x" by blast
    show ?thesis using process_line_dict [of rt line x out] Inr x
      by (simp add: dispatch_failure_def)
  next
    case False
    then have "dispatch_failure rt line = AttributeError"
      using Inr by (cases data) (simp_all add: dispatch_failure_def)
    then show ?thesis using process_line_not_dict [of rt line data out] Inr False by simp
  qed
qed

section \<open>One step of the daemon loop\<close>

lemma loop_body_failure:
  "line \<noteq> [] \<Longrightarrow> process_line rt line (stdout_of d) = (Inl e, out) \<Longrightarrow> is_Exception e \<Longrightarrow>
   loop_body rt line d = (True, d\<lparr>stdout_of := out, logged := logged d @ [e]\<rparr>)"
  by (simp add: loop_body_def)

lemma daemon_loop_failure_step:
  "line \<noteq> [] \<Longrightarrow> process_line rt line (stdout_of d) = (Inl e, out) \<Longrightarrow> is_Exception e \<Longrightarrow>
   daemon_loop rt (line # rest) d =
     daemon_loop rt rest (d\<lparr>stdout_of := out, logged := logged d @ [e]\<rparr>)"
  by (simp add: loop_body_failure)

lemma daemon_loop_append:
  "\<forall>l\<in>set before. l \<noteq> [] \<Longrightarrow> daemon_loop rt before d = (EndOfInput, d1) \<Longrightarrow>
   daemon_loop rt (before @ rest) d = daemon_loop rt rest d1"
proof (induction before arbitrary: d)
  case Nil
  then show ?case by simp
next
  case (Cons l before)
  then show ?case by (auto split: if_splits)
qed

text \<open>
  A run of the loop over lines none of which ends the process: every line is read, and the
  log grows by one entry per line, in the order of the lines.
\<close>

lemma daemon_loop_logs_every_line:
  "\<forall>l\<in>set ls. l \<noteq> [] \<and> is_Exception (dispatch_failure rt l) \<Longrightarrow>
   daemon_loop rt ls d = (EndOfInput, d\<lparr>logged := logged d @ map (dispatch_failure rt) ls\<rparr>)"
proof (induction ls arbitrary: d)
  case Nil
  then show ?case by simp
next
  case (Cons l ls)
  from Cons.prems have l: "l \<noteq> []" and e: "is_Exception (dispatch_failure rt l)"
    and rest: "\<forall>x\<in>set ls. x \<noteq> [] \<and> is_Exception (dispatch_failure rt x)"
    by auto
  have "daemon_loop rt (l # ls) d =
          daemon_loop rt ls (d\<lparr>stdout_of := stdout_of d, logged := logged d @ [dispatch_failure rt l]\<rparr>)"
    using daemon_loop_failure_step [OF l process_line_raises e] .
  then show ?case using Cons.IH [OF rest] by simp
qed

section \<open>The end-to-end example\<close>

text \<open>
  Claim C1. The request line of the example, parsed to the object it denotes, makes
  \<^verbatim>\<open>process_line\<close> raise \<^verbatim>\<open>TypeError\<close> and write nothing, whatever the engine reports:
  \<^verbatim>\<open>data.get('type')\<close> and \<^verbatim>\<open>data['uuid']\<close> leave both keys in \<^verbatim>\<open>data\<close>, and
  \<^verbatim>\<open>JediFacade(**data)\<close> rejects the keyword \<^verbatim>\<open>type\<close>. The response of the example is not
  written.
\<close>

theorem process_line_c1_request_raises:
  "json_loads rt (strip c1_line) = Inr c1_request \<Longrightarrow>
   process_line rt c1_line out = (Inl TypeError, out)"
  using process_line_dict [of rt c1_line _ out]
  by (simp add: c1_request_def)

theorem process_line_c1_request_raises_witness:
  "json_loads example_runtime (strip c1_line) = Inr c1_request \<and>
   process_line example_runtime c1_line open_stdout = (Inl TypeError, open_stdout)"
proof -
  have h: "json_loads example_runtime (strip c1_line) = Inr c1_request"
    by (simp add: example_runtime_def example_documents_def)
  show ?thesis using h process_line_c1_request_raises [OF h, of open_stdout] by blast
qed

section \<open>Failure isolation in the daemon loop\<close>

text \<open>
  Claim C2. Let the loop have read the lines \<open>before\<close> without the process exiting, and let
  \<^verbatim>\<open>process_line\<close> raise on the next line an exception other than \<^verbatim>\<open>SystemExit\<close>. Then the
  loop logs the exception and goes on exactly as the loop started on the remaining lines
  does: the line after the failing one is read and processed.
\<close>

theorem daemon_loop_survives_failure:
  assumes "\<forall>l\<in>set before. l \<noteq> []"
    and "daemon_loop rt before d = (EndOfInput, d1)"
    and "line \<noteq> []"
    and "process_line rt line (stdout_of d1) = (Inl e, out)"
    and "is_Exception e"
  shows "daemon_loop rt (before @ line # rest) d =
           daemon_loop rt rest (d1\<lparr>stdout_of := out, logged := logged d1 @ [e]\<rparr>)"
  using daemon_loop_append [OF assms(1,2), of "line # rest"]
        daemon_loop_failure_step [OF assms(3,4,5), of rest]
  by simp

theorem daemon_loop_survives_failure_witness:
  "no_type_line \<noteq> [] \<and>
   daemon_loop example_runtime [no_type_line] fresh_daemon =
     (EndOfInput, fresh_daemon\<lparr>logged := [AssertionError]\<rparr>) \<and>
   ''garbage'' \<noteq> [] \<and>
   process_line example_runtime ''garbage''
       (stdout_of (fresh_daemon\<lparr>logged := [AssertionError]\<rparr>)) =
     (Inl ValueError, open_stdout) \<and>
   is_Exception ValueError \<and>
   daemon_loop example_runtime ([no_type_line] @ ''garbage'' # [c1_line]) fresh_daemon =
     daemon_loop example_runtime [c1_line]
       (fresh_daemon\<lparr>logged := [AssertionError], stdout_of := open_stdout,
                      logged := logged (fresh_daemon\<lparr>logged := [AssertionError]\<rparr>) @ [ValueError]\<rparr>) \<and>
   daemon_loop example_runtime [c1_line]
       (fresh_daemon\<lparr>logged := [AssertionError], stdout_of := open_stdout,
                      logged := logged (fresh_daemon\<lparr>logged := [AssertionError]\<rparr>) @ [ValueError]\<rparr>) =
     (EndOfInput, fresh_daemon\<lparr>logged := [AssertionError, ValueError, TypeError]\<rparr>)"
proof -
  have h0: "no_type_line \<noteq> []" by (simp add: no_type_line_def)
  have h1: "\<forall>l\<in>set [no_type_line]. l \<noteq> []" using h0 by simp
  have h2: "daemon_loop example_runtime [no_type_line] fresh_daemon =
     (EndOfInput, fresh_daemon\<lparr>logged := [AssertionError]\<rparr>)" by code_simp
  have h3: "''garbage'' \<noteq> []" by simp
  have h4: "process_line example_runtime ''garbage''
       (stdout_of (fresh_daemon\<lparr>logged := [AssertionError]\<rparr>)) =
     (Inl ValueError, open_stdout)" by code_simp
  have h5: "is_Exception ValueError" by (simp add: is_Exception_def)
  have h6: "daemon_loop example_runtime [c1_line]
       (fresh_daemon\<lparr>logged := [AssertionError], stdout_of := open_stdout,
                      logged := logged (fresh_daemon\<lparr>logged := [AssertionError]\<rparr>) @ [ValueError]\<rparr>) =
     (EndOfInput, fresh_daemon\<lparr>logged := [AssertionError, ValueError, TypeError]\<rparr>)" by code_simp
  show ?thesis
    using h0 h2 h3 h4 h5 h6 daemon_loop_survives_failure [OF h1 h2 h3 h4 h5, of "[c1_line]"]
    by blast
qed

section \<open>The call snippet and the toggle\<close>

text \<open>
  Claim C3. For the call signature \<^verbatim>\<open>(a, b=5)\<close> the funcargs operation yields none of the
  three snippets: under each of the toggles \<^verbatim>\<open>required\<close>, \<^verbatim>\<open>all\<close> and the empty string it
  raises \<^verbatim>\<open>ValueError\<close>, at the unpacking of the one-element list for \<^verbatim>\<open>a\<close>, which the
  handler written for that case (\<^verbatim>\<open>except IndexError\<close>) does not catch.
\<close>

theorem funcargs_a_b5_raises:
  "get_funcargs ''required'' a_b5_script = Inl ValueError \<and>
   get_funcargs ''all'' a_b5_script = Inl ValueError \<and>
   get_funcargs [] a_b5_script = Inl ValueError"
  by code_simp

text \<open>
  Where every extracted parameter has a name and a default, nothing is unpacked in vain: the
  operation returns the placeholders \<^verbatim>\<open>name=${i:default}\<close> joined with a comma and a space
  when the toggle is \<^verbatim>\<open>all\<close>, and the empty string for every other toggle.
\<close>

lemma funcargs_all_defaults:
  assumes "call_signatures self = Inr in_call"
    and "\<forall>p\<in>set (get_function_parameters in_call). length p = 2"
  shows "get_funcargs toggle self =
     Inr (if toggle = ''all''
          then str_join '', ''
                 (map (\<lambda>(k, p). p ! 0 @ ''=${'' @ str_of_nat (k + 1) @ '':'' @ p ! 1 @ ''}'')
                    (enumerate 0 (get_function_parameters in_call)))
          else [])"
  using assms(1) call_assigments_loop_all [OF assms(2), of 0 "[]"]
        call_assigments_loop_not_all [OF assms(2), of 0 "[]"]
  by (simp add: get_funcargs_def JediFacade_complete_call_assigments_def)

lemma funcargs_all_defaults_example:
  "call_signatures defaults_script = Inr (Some \<lparr>params = [''a=1'', ''b=5'']\<rparr>) \<and>
   get_function_parameters (Some \<lparr>params = [''a=1'', ''b=5'']\<rparr>) = [[''a'', ''1''], [''b'', ''5'']] \<and>
   get_funcargs ''all'' defaults_script = Inr ''a=${1:1}, b=${2:5}'' \<and>
   get_funcargs ''required'' defaults_script = Inr [] \<and>
   get_funcargs [] defaults_script = Inr []"
proof -
  have h1: "call_signatures defaults_script = Inr (Some \<lparr>params = [''a=1'', ''b=5'']\<rparr>)"
    by (simp add: defaults_script_def)
  have g: "get_function_parameters (Some \<lparr>params = [''a=1'', ''b=5'']\<rparr>) = [[''a'', ''1''], [''b'', ''5'']]"
    by code_simp
  have h2: "\<forall>p\<in>set (get_function_parameters (Some \<lparr>params = [''a=1'', ''b=5'']\<rparr>)). length p = 2"
    by (simp add: g)
  have n: "str_of_nat (Suc 0) = ''1''" "str_of_nat (Suc (Suc 0)) = ''2''" by code_simp+
  show ?thesis
    using h1 funcargs_all_defaults [OF h1 h2, of "''all''"]
      funcargs_all_defaults [OF h1 h2, of "''required''"]
      funcargs_all_defaults [OF h1 h2, of "[]"]
    by (simp add: g enumerate_eq_zip n)
qed

section \<open>The parameter extractor on the documented example\<close>

text \<open>
  Claim C4. For the signature \<^verbatim>\<open>(a, b=5, *args, self, **kwargs)\<close> the extractor keeps \<^verbatim>\<open>a\<close> and
  \<^verbatim>\<open>b\<close> in declaration order and drops \<^verbatim>\<open>*args\<close>, \<^verbatim>\<open>self\<close> and \<^verbatim>\<open>**kwargs\<close>; what it
  returns for \<^verbatim>\<open>a\<close> is the one-element list \<^verbatim>\<open>['a']\<close>, not a pair of the name and \<^verbatim>\<open>None\<close>
  as the docstring (\<^verbatim>\<open>list of (str, str or None)\<close>) announces.
\<close>

theorem get_function_parameters_documented_example:
  "get_function_parameters
     (Some \<lparr>params = [''a'', ''b=5'', ''*args'', ''self'', ''**kwargs'']\<rparr>)
   = [[''a''], [''b'', ''5'']]"
  by (simp add: get_function_parameters_def strip_def py_isspace_def)

section \<open>Autocomplete\<close>

text \<open>
  What holds of the autocomplete operation: with no active signature and no completions it
  returns the empty list, and for a signature whose extracted parameters all have defaults
  it returns the parameter entries followed by the formatted completions, each in the
  engine's order.
\<close>

lemma get_autocomplete_nothing_active:
  "call_signatures self = Inr None \<Longrightarrow> completions self = Inr [] \<Longrightarrow> get_autocomplete self = Inr []"
  by (simp add: get_autocomplete_def JediFacade_parameters_for_completion_def
      JediFacade_completion_def get_function_parameters_def)

lemma get_autocomplete_defaults:
  assumes "call_signatures self = Inr in_call"
    and "\<forall>p\<in>set (get_function_parameters in_call). length p = 2"
    and "completions self = Inr cs"
  shows "get_autocomplete self =
     Inr (map (\<lambda>p. (p ! 0 @ [CHR 0x09] @ p ! 1, p ! 0 @ ''=${1:'' @ p ! 1 @ ''}''))
            (get_function_parameters in_call) @ map format_completion cs)"
  using assms parameters_loop_defaults [OF assms(2), of "[]"]
  by (simp add: get_autocomplete_def JediFacade_parameters_for_completion_def
      JediFacade_completion_def)

text \<open>
  Claim C5. In the state where the cursor is inside a call of \<^verbatim>\<open>f(a)\<close> and the engine reports
  the completion \<^verbatim>\<open>path\<close>, the autocomplete operation does not return the entry for \<^verbatim>\<open>a\<close>
  followed by the entry for \<^verbatim>\<open>path\<close>: it raises \<^verbatim>\<open>ValueError\<close>.
\<close>

theorem get_autocomplete_required_parameter_raises:
  "get_autocomplete required_param_script = Inl ValueError"
  by code_simp

section \<open>Goto and usages when the engine finds nothing\<close>

text \<open>
  Claim C6. When \<^verbatim>\<open>goto_assignments()\<close> raises \<^verbatim>\<open>NotFoundError\<close>, the goto operation returns
  \<^verbatim>\<open>None\<close>: a normal return, with no exception left for the daemon loop to log.
\<close>

theorem goto_not_found_returns_none:
  "goto_assignments self = Inl NotFoundError \<Longrightarrow> get_goto self = Inr None"
  by (simp add: get_goto_def JediFacade_goto_def)

theorem goto_not_found_returns_none_witness:
  "goto_assignments not_found_script = Inl NotFoundError \<and> get_goto not_found_script = Inr None"
  using goto_not_found_returns_none [of not_found_script]
  by (simp add: not_found_script_def)

text \<open>
  Claim C7. When \<^verbatim>\<open>usages()\<close> raises \<^verbatim>\<open>NotFoundError\<close>, the usages operation does not catch
  it: the operation raises the same exception, an \<^verbatim>\<open>Exception\<close> that the daemon loop's
  handler logs, and returns no result, in particular not the empty list.
\<close>

theorem usages_not_found_propagates:
  "usages self = Inl NotFoundError \<Longrightarrow>
   get_usages self = Inl NotFoundError \<and> is_Exception NotFoundError \<and> get_usages self \<noteq> Inr []"
  by (simp add: get_usages_def JediFacade_usages_def is_Exception_def)

theorem usages_not_found_propagates_witness:
  "usages not_found_script = Inl NotFoundError \<and>
   get_usages not_found_script = Inl NotFoundError \<and> is_Exception NotFoundError \<and>
   get_usages not_found_script \<noteq> Inr []"
  using usages_not_found_propagates [of not_found_script]
  by (simp add: not_found_script_def)

section \<open>Requests without an action type\<close>

text \<open>
  Claim C8. If a line read from standard input parses as JSON and the \<^verbatim>\<open>type\<close> field of the
  parsed value is absent or falsy, then \<^verbatim>\<open>process_line\<close> raises \<^verbatim>\<open>AssertionError\<close> (or
  \<^verbatim>\<open>AttributeError\<close>, when the value is not an object), which the loop's handler catches;
  standard output is left as it was; and the loop goes on with the remaining lines, its log
  one entry longer. When none of the remaining lines ends the process, the loop reads every
  one of them to the end of the input and logs one failure for each, after the one for this
  line.
\<close>

theorem missing_type_no_response:
  assumes "line \<noteq> []"
    and "json_loads rt (strip line) = Inr data"
    and "type_absent_or_falsy data"
  shows "dispatch_failure rt line = (case data of PDict x \<Rightarrow> AssertionError | _ \<Rightarrow> AttributeError) \<and>
         is_Exception (dispatch_failure rt line) \<and>
         process_line rt line (stdout_of d) = (Inl (dispatch_failure rt line), stdout_of d) \<and>
         daemon_loop rt (line # rest) d =
           daemon_loop rt rest (d\<lparr>logged := logged d @ [dispatch_failure rt line]\<rparr>) \<and>
         ((\<forall>l\<in>set rest. l \<noteq> [] \<and> is_Exception (dispatch_failure rt l)) \<longrightarrow>
            daemon_loop rt (line # rest) d =
              (EndOfInput, d\<lparr>logged := logged d @ map (dispatch_failure rt) (line # rest)\<rparr>))"
proof -
  have df: "dispatch_failure rt line = (case data of PDict x \<Rightarrow> AssertionError | _ \<Rightarrow> AttributeError)"
  proof (cases "\<exists>x. data = PDict x")
    case True
    then obtain x where x: "data = PDict x" by blast
    with assms(3) have "\<not> truthy (case map_of x ''type'' of None \<Rightarrow> PNone | Some v \<Rightarrow> v)"
      by (simp add: type_absent_or_falsy_def split: option.splits)
    then show ?thesis using assms(2) x by (simp add: dispatch_failure_def)
  next
    case False
    then show ?thesis using assms(2) by (cases data) (simp_all add: dispatch_failure_def)
  qed
  have ex: "is_Exception (dispatch_failure rt line)"
    unfolding df by (cases data) (simp_all add: is_Exception_def)
  have pl: "process_line rt line (stdout_of d) = (Inl (dispatch_failure rt line), stdout_of d)"
    by (rule process_line_raises)
  have step: "daemon_loop rt (line # rest) d =
          daemon_loop rt rest (d\<lparr>logged := logged d @ [dispatch_failure rt line]\<rparr>)"
    using daemon_loop_failure_step [OF assms(1) pl ex, of rest] by simp
  have all: "(\<forall>l\<in>set rest. l \<noteq> [] \<and> is_Exception (dispatch_failure rt l)) \<longrightarrow>
            daemon_loop rt (line # rest) d =
              (EndOfInput, d\<lparr>logged := logged d @ map (dispatch_failure rt) (line # rest)\<rparr>)"
    using daemon_loop_logs_every_line [of "line # rest" rt d] assms(1) ex by simp
  show ?thesis using df ex pl step all by blast
qed

theorem missing_type_no_response_witness:
  "no_type_line \<noteq> [] \<and>
   json_loads example_runtime (strip no_type_line) = Inr (PDict [(''uuid'', PStr ''7'')]) \<and>
   type_absent_or_falsy (PDict [(''uuid'', PStr ''7'')]) \<and>
   c1_line \<noteq> [] \<and>
   dispatch_failure example_runtime c1_line = TypeError \<and>
   process_line example_runtime no_type_line open_stdout = (Inl AssertionError, open_stdout) \<and>
   daemon_loop example_runtime [no_type_line, c1_line] fresh_daemon =
     (EndOfInput, \<lparr>stdout_of = open_stdout, logged = [AssertionError, TypeError]\<rparr>)"
proof -
  have h1: "no_type_line \<noteq> []" by (simp add: no_type_line_def)
  have h2: "json_loads example_runtime (strip no_type_line) = Inr (PDict [(''uuid'', PStr ''7'')])"
    by code_simp
  have h3: "type_absent_or_falsy (PDict [(''uuid'', PStr ''7'')])"
    by (simp add: type_absent_or_falsy_def)
  have h4: "c1_line \<noteq> []" by (simp add: c1_line_def)
  have h5: "dispatch_failure example_runtime c1_line = TypeError" by code_simp
  have h6: "\<forall>l\<in>set [c1_line]. l \<noteq> [] \<and> is_Exception (dispatch_failure example_runtime l)"
    using h4 h5 by (simp add: is_Exception_def)
  note t = missing_type_no_response [OF h1 h2 h3, of fresh_daemon "[c1_line]"]
  from t have a: "dispatch_failure example_runtime no_type_line = AssertionError" by simp
  from t have b: "process_line example_runtime no_type_line (stdout_of fresh_daemon) =
      (Inl (dispatch_failure example_runtime no_type_line), stdout_of fresh_daemon)" by blast
  from t h6 have c: "daemon_loop example_runtime [no_type_line, c1_line] fresh_daemon =
      (EndOfInput, fresh_daemon\<lparr>logged := logged fresh_daemon @
         map (dispatch_failure example_runtime) [no_type_line, c1_line]\<rparr>)" by blast
  show ?thesis using h1 h2 h3 h4 h5 a b c by (simp add: fresh_daemon_def)
qed

section \<open>The output writer\<close>

text \<open>
  Claim C9, as amended. Let \<open>text\<close> be what \<^verbatim>\<open>write\<close> is about to write: the string it was
  given, or the JSON serialization of any other value. The call emits \<open>text\<close>, followed by
  one newline only if \<open>text\<close> does not end with one. The emitted text therefore ends with as
  many newlines as \<open>text\<close> does, and with one if \<open>text\<close> has none; for every value that is not
  a string it is the serialization followed by exactly one newline.
\<close>

theorem write_stdout_newline:
  assumes "write_text data = Inr text"
  shows "emitted out (snd (write_stdout data out)) =
           text @ (if endswith_newline text then [] else [CHR 0x0A]) \<and>
         trailing_newlines (emitted out (snd (write_stdout data out))) =
           max 1 (trailing_newlines text) \<and>
         ((\<forall>s. data \<noteq> PStr s) \<longrightarrow>
            emitted out (snd (write_stdout data out)) = text @ [CHR 0x0A] \<and>
            trailing_newlines (emitted out (snd (write_stdout data out))) = 1)"
proof -
  have em: "emitted out (snd (write_stdout data out)) =
           text @ (if endswith_newline text then [] else [CHR 0x0A])"
    using assms
    by (simp add: write_stdout_def emitted_def stdout_write_def stdout_flush_def Let_def)
  have tr: "trailing_newlines (text @ (if endswith_newline text then [] else [CHR 0x0A])) =
           max 1 (trailing_newlines text)"
    using trailing_newlines_pos [of "text"] trailing_newlines_0 [of "text"]
    by (simp add: trailing_newlines_snoc)
  have js: "(\<forall>s. data \<noteq> PStr s) \<longrightarrow> \<not> endswith_newline text"
    using assms json_dumps_no_trailing_newline [of data "text"]
    by (cases data) (simp_all add: write_text_def)
  show ?thesis using em tr js trailing_newlines_0 [of "text"] by (simp add: trailing_newlines_snoc)
qed

theorem write_stdout_newline_witness:
  "write_text small_response = Inr (''['' @ json_str ''path'' @ '', 3]'') \<and>
   emitted open_stdout (snd (write_stdout small_response open_stdout)) =
     ''['' @ json_str ''path'' @ '', 3]'' @ [CHR 0x0A] \<and>
   trailing_newlines (emitted open_stdout (snd (write_stdout small_response open_stdout))) = 1"
proof -
  have h: "write_text small_response = Inr (''['' @ json_str ''path'' @ '', 3]'')"
    by code_simp
  have n: "\<forall>s. small_response \<noteq> PStr s"
    by (simp add: small_response_def)
  from write_stdout_newline [OF h, of open_stdout] n
  have A: "emitted open_stdout (snd (write_stdout small_response open_stdout)) =
          (''['' @ json_str ''path'' @ '', 3]'') @ [CHR 0x0A]"
    and B: "trailing_newlines (emitted open_stdout (snd (write_stdout small_response open_stdout))) = 1"
    by blast+
  have C: "(''['' @ json_str ''path'' @ '', 3]'') @ [CHR 0x0A] =
           ''['' @ json_str ''path'' @ '', 3]'' @ [CHR 0x0A]"
    by simp
  show ?thesis using h A [unfolded C] B by blast
qed

text \<open>
  A string that already ends in two newlines is emitted as it is: the emitted text ends in
  two newlines, not in exactly one.
\<close>

theorem write_stdout_two_newlines_counterexample:
  "emitted open_stdout (snd (write_stdout two_newlines open_stdout)) = ''a'' @ [CHR 0x0A, CHR 0x0A] \<and>
   trailing_newlines (emitted open_stdout (snd (write_stdout two_newlines open_stdout))) = 2"
  by code_simp

section \<open>Unpacking a parameter without a default\<close>

text \<open>
  Claim C10, as amended. Let the active call signature contain a parameter that the
  extractor keeps (its stripped code is not \<^verbatim>\<open>self\<close> and holds no \<^verbatim>\<open>*\<close>) and that has no
  default (its code holds no \<^verbatim>\<open>=\<close>). Then the extractor yields a one-element list for it,
  unpacking that list into two names raises \<^verbatim>\<open>ValueError\<close>, the handler for \<^verbatim>\<open>IndexError\<close>
  does not catch it, and both the autocomplete and the funcargs operation raise
  \<^verbatim>\<open>ValueError\<close>.
\<close>

theorem required_parameter_raises:
  assumes "call_signatures self = Inr (Some cd)"
    and "p \<in> set (params cd)"
    and "CHR ''*'' \<notin> set (strip p)"
    and "strip p \<noteq> ''self''"
    and "CHR ''='' \<notin> set (strip p)"
  shows "[strip p] \<in> set (get_function_parameters (Some cd)) \<and>
         unpack_pair [strip p] = Inl ValueError \<and>
         name_and_value [strip p] = Inl ValueError \<and>
         get_autocomplete self = Inl ValueError \<and>
         get_funcargs toggle self = Inl ValueError"
proof -
  have m: "[strip p] \<in> set (get_function_parameters (Some cd))"
    using extract_params_member [OF assms(2,3,4)] str_split_no_sep [OF assms(5)]
    by (simp add: get_function_parameters_def strip_strip)
  then have ex: "\<exists>q\<in>set (get_function_parameters (Some cd)). length q \<noteq> 2"
    by force
  have "get_autocomplete self = Inl ValueError"
    using assms(1) parameters_loop_fail [OF ex, of "[]"]
    by (simp add: get_autocomplete_def JediFacade_parameters_for_completion_def)
  moreover have "get_funcargs toggle self = Inl ValueError"
    using assms(1) call_assigments_loop_fail [OF ex, of "toggle = ''all''" 0 "[]"]
    by (simp add: get_funcargs_def JediFacade_complete_call_assigments_def)
  ultimately show ?thesis using m
    by (simp add: name_and_value_fail unpack_pair_def)
qed

theorem required_parameter_raises_witness:
  "call_signatures a_b5_script = Inr (Some \<lparr>params = [''a'', ''b=5'']\<rparr>) \<and>
   ''a'' \<in> set (params \<lparr>params = [''a'', ''b=5'']\<rparr>) \<and>
   CHR ''*'' \<notin> set (strip ''a'') \<and> strip ''a'' \<noteq> ''self'' \<and> CHR ''='' \<notin> set (strip ''a'') \<and>
   [''a''] \<in> set (get_function_parameters (Some \<lparr>params = [''a'', ''b=5'']\<rparr>)) \<and>
   get_autocomplete a_b5_script = Inl ValueError \<and>
   get_funcargs ''all'' a_b5_script = Inl ValueError"
proof -
  have s: "strip ''a'' = ''a''" by code_simp
  have h1: "call_signatures a_b5_script = Inr (Some \<lparr>params = [''a'', ''b=5'']\<rparr>)"
    by (simp add: a_b5_script_def)
  have h2: "''a'' \<in> set (params \<lparr>params = [''a'', ''b=5'']\<rparr>)" by simp
  have h3: "CHR ''*'' \<notin> set (strip ''a'')" by (simp add: s)
  have h4: "strip ''a'' \<noteq> ''self''" by (simp add: s)
  have h5: "CHR ''='' \<notin> set (strip ''a'')" by (simp add: s)
  show ?thesis
    using h1 h2 h3 h4 h5 required_parameter_raises [OF h1 h2 h3 h4 h5, of "''all''"]
    by (simp add: s)
qed

text \<open>
  The signature \<^verbatim>\<open>(*args)\<close> contains a parameter without a default, yet the extractor yields
  no list for it and neither operation raises.
\<close>

theorem star_args_counterexample:
  "call_signatures star_args_script = Inr (Some \<lparr>params = [''*args'']\<rparr>) \<and>
   CHR ''='' \<notin> set ''*args'' \<and>
   get_function_parameters (Some \<lparr>params = [''*args'']\<rparr>) = [] \<and>
   get_autocomplete star_args_script = Inr [(''path'' @ [CHR 0x09] @ ''module'', ''path'')] \<and>
   get_funcargs ''required'' star_args_script = Inr []"
  by code_simp

end
